theory Spec2Isabelle
  imports Complex_Main
begin

section \<open>The Application Gateway \<open>waf\<close> filter of c7n\_azure\<close>

text \<open>
  A shallow embedding of \<^verbatim>\<open>ApplicationGatewayWafFilter\<close> from
  \<^verbatim>\<open>tools/c7n_azure/c7n_azure/resources/app_gateway.py\<close>: its method
  \<^verbatim>\<open>process\<close> and its declared \<^verbatim>\<open>schema\<close>.

  The filter works on deserialised JSON: resources are dictionaries, and a policy's
  \<^verbatim>\<open>serialize(True)\<close> is a dictionary. Nothing in the code fixes the shape of those
  values, so the model keeps them untyped and every Python operation that can raise
  returns a sum, with the exception class on the left.
\<close>

subsection \<open>Python values and exceptions\<close>

text \<open>
  \<open>PFloat\<close> carries the exact value of a finite float (the code only compares a float
  with an integer and truncates it, both exact operations; infinities and NaN are not
  values of the model). A dictionary is an association list read by \<open>map_of\<close>: the
  first binding of a key is the binding. Strings are \<open>string\<close>, so the model speaks
  of ASCII text: \<^verbatim>\<open>lower\<close> and \<^verbatim>\<open>int\<close> are modelled as they act on ASCII
  characters, and the interpreter's limit on the number of digits \<^verbatim>\<open>int\<close> converts
  is left out.
\<close>

datatype pyval =
    PNone
  | PBool bool
  | PInt int
  | PFloat rat
  | PStr string
  | PList "pyval list"
  | PDict "(string \<times> pyval) list"

datatype py_error = KeyError | TypeError | AttributeError | ValueError

subsection \<open>The built-in operations the filter uses\<close>

text \<open>\<^verbatim>\<open>d.get(k)\<close> on a dictionary object: the value, or \<^verbatim>\<open>None\<close>.\<close>

definition dict_get :: "(string \<times> pyval) list \<Rightarrow> string \<Rightarrow> pyval" where
  "dict_get d k = (case map_of d k of Some v \<Rightarrow> v | None \<Rightarrow> PNone)"

text \<open>\<^verbatim>\<open>d.get(k, default)\<close> on a dictionary object.\<close>

definition dict_get_default :: "(string \<times> pyval) list \<Rightarrow> string \<Rightarrow> pyval \<Rightarrow> pyval" where
  "dict_get_default d k dflt = (case map_of d k of Some v \<Rightarrow> v | None \<Rightarrow> dflt)"

text \<open>
  \<^verbatim>\<open>v.get(k)\<close> on any value: only a dictionary has the method, every other value
  raises \<^verbatim>\<open>AttributeError\<close>.
\<close>

fun py_get :: "pyval \<Rightarrow> string \<Rightarrow> py_error + pyval" where
  "py_get (PDict d) k = Inr (dict_get d k)"
| "py_get _ k = Inl AttributeError"

text \<open>
  \<^verbatim>\<open>v[k]\<close> with a string key: a dictionary raises \<^verbatim>\<open>KeyError\<close> on a missing key;
  a list or a string wants an integer index, and the other values are not subscriptable
  (\<^verbatim>\<open>TypeError\<close> both).
\<close>

fun py_getitem :: "pyval \<Rightarrow> string \<Rightarrow> py_error + pyval" where
  "py_getitem (PDict d) k = (case map_of d k of Some v \<Rightarrow> Inr v | None \<Rightarrow> Inl KeyError)"
| "py_getitem _ k = Inl TypeError"

text \<open>Whether the string \<open>k\<close> occurs in \<open>s\<close> as a contiguous substring.\<close>

fun is_prefix :: "string \<Rightarrow> string \<Rightarrow> bool" where
  "is_prefix [] s = True"
| "is_prefix (c # k) [] = False"
| "is_prefix (c # k) (c' # s) = (c = c' \<and> is_prefix k s)"

fun is_substring :: "string \<Rightarrow> string \<Rightarrow> bool" where
  "is_substring k [] = (k = [])"
| "is_substring k (c # s) = (is_prefix k (c # s) \<or> is_substring k s)"

text \<open>
  \<^verbatim>\<open>k in v\<close> with a string \<open>k\<close>: key membership in a dictionary, element membership in
  a list (only a string element can be equal to \<open>k\<close>), substring in a string;
  \<^verbatim>\<open>TypeError\<close> for a value that is no container.
\<close>

fun py_contains :: "string \<Rightarrow> pyval \<Rightarrow> py_error + bool" where
  "py_contains k (PDict d) = Inr (map_of d k \<noteq> None)"
| "py_contains k (PList xs) = Inr (PStr k \<in> set xs)"
| "py_contains k (PStr s) = Inr (is_substring k s)"
| "py_contains k _ = Inl TypeError"

text \<open>
  What a \<^verbatim>\<open>for\<close> loop iterates over: the elements of a list, the keys of a dictionary,
  the one-character strings of a string; \<^verbatim>\<open>TypeError\<close> for a value that is not
  iterable (\<^verbatim>\<open>None\<close> among them).
\<close>

fun py_iter :: "pyval \<Rightarrow> py_error + pyval list" where
  "py_iter (PList xs) = Inr xs"
| "py_iter (PDict d) = Inr (map PStr (remdups (map fst d)))"
| "py_iter (PStr s) = Inr (map (\<lambda>c. PStr [c]) s)"
| "py_iter _ = Inl TypeError"

subsubsection \<open>\<^verbatim>\<open>str.lower\<close>\<close>

text \<open>
  On ASCII text \<^verbatim>\<open>lower\<close> replaces each of the 26 capital letters by its small
  letter and keeps every other character.
\<close>

definition ascii_uppercase :: string where
  "ascii_uppercase = ''ABCDEFGHIJKLMNOPQRSTUVWXYZ''"

definition ascii_lowercase :: string where
  "ascii_lowercase = ''abcdefghijklmnopqrstuvwxyz''"

definition lower_char :: "char \<Rightarrow> char" where
  "lower_char c =
     (case map_of (zip ascii_uppercase ascii_lowercase) c of Some l \<Rightarrow> l | None \<Rightarrow> c)"

definition str_lower :: "string \<Rightarrow> string" where
  "str_lower s = map lower_char s"

text \<open>\<^verbatim>\<open>v.lower()\<close> on any value: only a string has the method.\<close>

fun py_lower :: "pyval \<Rightarrow> py_error + string" where
  "py_lower (PStr s) = Inr (str_lower s)"
| "py_lower _ = Inl AttributeError"

subsubsection \<open>\<^verbatim>\<open>int(...)\<close>\<close>

text \<open>
  \<^verbatim>\<open>int\<close> on a string: surrounding whitespace (tab, line feed, vertical tab, form
  feed, carriage return and space, the characters 9 to 13 and 32) is dropped, one sign
  is allowed, then decimal digits, where single underscores may separate digits.
  Anything else is a \<^verbatim>\<open>ValueError\<close>.
\<close>

definition is_space :: "char \<Rightarrow> bool" where
  "is_space c =
     ((9 \<le> (of_char c :: nat) \<and> (of_char c :: nat) \<le> 13) \<or> (of_char c :: nat) = 32)"

definition is_digit :: "char \<Rightarrow> bool" where
  "is_digit c = (48 \<le> (of_char c :: nat) \<and> (of_char c :: nat) \<le> 57)"

definition digit_val :: "char \<Rightarrow> nat" where
  "digit_val c = (of_char c :: nat) - 48"

definition strip :: "string \<Rightarrow> string" where
  "strip s = rev (dropWhile is_space (rev (dropWhile is_space s)))"

fun parse_digits :: "nat \<Rightarrow> string \<Rightarrow> nat option" where
  "parse_digits acc [] = Some acc"
| "parse_digits acc (c # cs) =
     (if is_digit c then parse_digits (10 * acc + digit_val c) cs
      else if c = CHR ''_'' then
        (case cs of
           [] \<Rightarrow> None
         | c' # cs' \<Rightarrow> if is_digit c' then parse_digits acc cs else None)
      else None)"

definition parse_nat :: "string \<Rightarrow> nat option" where
  "parse_nat s =
     (case s of
        [] \<Rightarrow> None
      | c # cs \<Rightarrow> if is_digit c then parse_digits 0 s else None)"

definition int_of_str :: "string \<Rightarrow> py_error + int" where
  "int_of_str s =
     (case strip s of
        [] \<Rightarrow> Inl ValueError
      | c # cs \<Rightarrow>
          if c = CHR ''-'' then
            (case parse_nat cs of None \<Rightarrow> Inl ValueError | Some n \<Rightarrow> Inr (- int n))
          else if c = CHR ''+'' then
            (case parse_nat cs of None \<Rightarrow> Inl ValueError | Some n \<Rightarrow> Inr (int n))
          else
            (case parse_nat (c # cs) of None \<Rightarrow> Inl ValueError | Some n \<Rightarrow> Inr (int n)))"

text \<open>A float is truncated towards zero.\<close>

definition trunc_rat :: "rat \<Rightarrow> int" where
  "trunc_rat q = (if 0 \<le> q then \<lfloor>q\<rfloor> else \<lceil>q\<rceil>)"

text \<open>
  \<^verbatim>\<open>int(v)\<close>: \<^verbatim>\<open>None\<close>, a list and a dictionary raise \<^verbatim>\<open>TypeError\<close>; a boolean
  is 0 or 1.
\<close>

fun py_int :: "pyval \<Rightarrow> py_error + int" where
  "py_int (PInt n) = Inr n"
| "py_int (PBool b) = Inr (if b then 1 else 0)"
| "py_int (PFloat q) = Inr (trunc_rat q)"
| "py_int (PStr s) = int_of_str s"
| "py_int _ = Inl TypeError"

text \<open>
  \<^verbatim>\<open>v == n\<close> for an integer \<open>n\<close>: numbers compare by value (a boolean is the integer
  0 or 1), every other value is different from an integer.
\<close>

fun py_eq_int :: "pyval \<Rightarrow> int \<Rightarrow> bool" where
  "py_eq_int (PInt k) n = (k = n)"
| "py_eq_int (PBool b) n = ((if b then 1 else 0) = n)"
| "py_eq_int (PFloat q) n = (q = of_int n)"
| "py_eq_int _ n = False"

subsection \<open>The collaborator: the firewall policies of the subscription\<close>

text \<open>
  A policy object of the SDK, as far as the filter reads it: its attribute \<^verbatim>\<open>id\<close>
  (a string or \<^verbatim>\<open>None\<close>) and the dictionary that \<^verbatim>\<open>serialize(True)\<close> returns.
\<close>

record waf_policy =
  waf_id :: "string option"
  serialize :: "(string \<times> pyval) list"

text \<open>
  The client: the policies the backend holds, and how many times
  \<^verbatim>\<open>web_application_firewall_policies.list_all\<close> has been called on it. The call
  returns all of them (\<^verbatim>\<open>list(...)\<close> reads the listing to its end); a failing
  backend is not modelled.
\<close>

record client =
  policies :: "waf_policy list"
  list_all_calls :: nat

definition list_all_policies :: "client \<Rightarrow> waf_policy list \<times> client" where
  "list_all_policies c = (policies c, c\<lparr>list_all_calls := Suc (list_all_calls c)\<rparr>)"

text \<open>\<^verbatim>\<open>app_gate_waf.id != waf_policy_name\<close>\<close>

fun id_ne :: "string option \<Rightarrow> pyval \<Rightarrow> bool" where
  "id_ne None v = (v \<noteq> PNone)"
| "id_ne (Some s) v = (v \<noteq> PStr s)"

subsection \<open>\<^verbatim>\<open>ApplicationGatewayWafFilter.process\<close>\<close>

text \<open>
  The condition of the innermost \<^verbatim>\<open>if\<close> (lines 91--92), in Python's evaluation order:
  \<^verbatim>\<open>int(rule.get('ruleId'))\<close> first, and the two \<^verbatim>\<open>lower()\<close> calls only when the
  rule ids are equal (\<^verbatim>\<open>and\<close> does not evaluate its right operand otherwise).
\<close>

definition rule_cond :: "pyval \<Rightarrow> pyval \<Rightarrow> pyval \<Rightarrow> py_error + bool" where
  "rule_cond filter_override_rule filter_state rule =
     (case py_get rule ''ruleId'' of
        Inl e \<Rightarrow> Inl e
      | Inr rule_id \<Rightarrow>
     (case py_int rule_id of
        Inl e \<Rightarrow> Inl e
      | Inr n \<Rightarrow>
          if \<not> py_eq_int filter_override_rule n then Inr False
          else
     (case py_lower filter_state of
        Inl e \<Rightarrow> Inl e
      | Inr fs \<Rightarrow>
     (case py_get rule ''state'' of
        Inl e \<Rightarrow> Inl e
      | Inr st \<Rightarrow>
     (case py_lower st of
        Inl e \<Rightarrow> Inl e
      | Inr rs \<Rightarrow> Inr (fs = rs))))))"

text \<open>
  The loops, innermost first. Each takes the list \<^verbatim>\<open>result\<close> as it stands and returns
  it as the loop leaves it; an exception leaves the loop (and \<^verbatim>\<open>process\<close>) at once.
\<close>

text \<open>\<^verbatim>\<open>for rule in group.get('rules')\<close>, lines 90--93.\<close>

fun rules_loop ::
  "pyval \<Rightarrow> pyval \<Rightarrow> pyval \<Rightarrow> pyval list \<Rightarrow> pyval list \<Rightarrow> py_error + pyval list" where
  "rules_loop filter_override_rule filter_state resource [] result = Inr result"
| "rules_loop filter_override_rule filter_state resource (rule # rules) result =
     (case rule_cond filter_override_rule filter_state rule of
        Inl e \<Rightarrow> Inl e
      | Inr b \<Rightarrow>
          rules_loop filter_override_rule filter_state resource rules
            (if b then result @ [resource] else result))"

text \<open>\<^verbatim>\<open>for group in rule_set.get('ruleGroupOverrides')\<close>, lines 89--93.\<close>

fun groups_loop ::
  "pyval \<Rightarrow> pyval \<Rightarrow> pyval \<Rightarrow> pyval list \<Rightarrow> pyval list \<Rightarrow> py_error + pyval list" where
  "groups_loop filter_override_rule filter_state resource [] result = Inr result"
| "groups_loop filter_override_rule filter_state resource (grp # grps) result =
     (case py_get grp ''rules'' of
        Inl e \<Rightarrow> Inl e
      | Inr rules_v \<Rightarrow>
     (case py_iter rules_v of
        Inl e \<Rightarrow> Inl e
      | Inr rules \<Rightarrow>
     (case rules_loop filter_override_rule filter_state resource rules result of
        Inl e \<Rightarrow> Inl e
      | Inr result' \<Rightarrow>
          groups_loop filter_override_rule filter_state resource grps result')))"

text \<open>
  \<^verbatim>\<open>for rule_set in app_gate_waf.get('managedRules').get('managedRuleSets')\<close>,
  lines 88--93.
\<close>

fun rule_sets_loop ::
  "pyval \<Rightarrow> pyval \<Rightarrow> pyval \<Rightarrow> pyval list \<Rightarrow> pyval list \<Rightarrow> py_error + pyval list" where
  "rule_sets_loop filter_override_rule filter_state resource [] result = Inr result"
| "rule_sets_loop filter_override_rule filter_state resource (rule_set # rule_sets) result =
     (case py_get rule_set ''ruleGroupOverrides'' of
        Inl e \<Rightarrow> Inl e
      | Inr grps_v \<Rightarrow>
     (case py_iter grps_v of
        Inl e \<Rightarrow> Inl e
      | Inr grps \<Rightarrow>
     (case groups_loop filter_override_rule filter_state resource grps result of
        Inl e \<Rightarrow> Inl e
      | Inr result' \<Rightarrow>
          rule_sets_loop filter_override_rule filter_state resource rule_sets result')))"

text \<open>
  Lines 87--88 for one policy whose id is the resource's: the \<^verbatim>\<open>properties\<close> of the
  serialised policy (\<^verbatim>\<open>{}\<close> when absent), then the rule sets to iterate over.
\<close>

definition managed_rule_sets :: "waf_policy \<Rightarrow> py_error + pyval list" where
  "managed_rule_sets w =
     (let app_gate_waf = dict_get_default (serialize w) ''properties'' (PDict []) in
      case py_get app_gate_waf ''managedRules'' of
        Inl e \<Rightarrow> Inl e
      | Inr managed_rules \<Rightarrow>
     (case py_get managed_rules ''managedRuleSets'' of
        Inl e \<Rightarrow> Inl e
      | Inr rule_sets_v \<Rightarrow> py_iter rule_sets_v))"

text \<open>\<^verbatim>\<open>for app_gate_waf in app_gate_wafs\<close>, lines 83--93.\<close>

fun wafs_loop ::
  "pyval \<Rightarrow> pyval \<Rightarrow> pyval \<Rightarrow> pyval \<Rightarrow> waf_policy list \<Rightarrow> pyval list
     \<Rightarrow> py_error + pyval list" where
  "wafs_loop filter_override_rule filter_state resource waf_policy_name [] result =
     Inr result"
| "wafs_loop filter_override_rule filter_state resource waf_policy_name
     (app_gate_waf # app_gate_wafs) result =
     (if id_ne (waf_id app_gate_waf) waf_policy_name then
        wafs_loop filter_override_rule filter_state resource waf_policy_name
          app_gate_wafs result
      else
     (case managed_rule_sets app_gate_waf of
        Inl e \<Rightarrow> Inl e
      | Inr rule_sets \<Rightarrow>
     (case rule_sets_loop filter_override_rule filter_state resource rule_sets result of
        Inl e \<Rightarrow> Inl e
      | Inr result' \<Rightarrow>
          wafs_loop filter_override_rule filter_state resource waf_policy_name
            app_gate_wafs result')))"

text \<open>
  Lines 79--82 for one resource: \<^verbatim>\<open>None\<close> when the resource is skipped by
  \<^verbatim>\<open>continue\<close>, the value of \<^verbatim>\<open>waf_policy_name\<close> otherwise. Line 82 reads
  \<^verbatim>\<open>resource['properties']\<close> a second time; nothing has changed the resource, so
  it is the value line 79 read.
\<close>

definition firewall_policy_id :: "pyval \<Rightarrow> py_error + pyval option" where
  "firewall_policy_id resource =
     (case py_getitem resource ''properties'' of
        Inl e \<Rightarrow> Inl e
      | Inr properties \<Rightarrow>
     (case py_contains ''firewallPolicy'' properties of
        Inl e \<Rightarrow> Inl e
      | Inr b \<Rightarrow>
          if \<not> b then Inr None
          else
     (case py_getitem properties ''firewallPolicy'' of
        Inl e \<Rightarrow> Inl e
      | Inr firewall_policy \<Rightarrow>
     (case py_getitem firewall_policy ''id'' of
        Inl e \<Rightarrow> Inl e
      | Inr waf_policy_name \<Rightarrow> Inr (Some waf_policy_name)))))"

text \<open>\<^verbatim>\<open>for resource in resources\<close>, lines 78--93.\<close>

fun resources_loop ::
  "pyval \<Rightarrow> pyval \<Rightarrow> waf_policy list \<Rightarrow> pyval list \<Rightarrow> pyval list
     \<Rightarrow> py_error + pyval list" where
  "resources_loop filter_override_rule filter_state app_gate_wafs [] result = Inr result"
| "resources_loop filter_override_rule filter_state app_gate_wafs (resource # resources)
     result =
     (case firewall_policy_id resource of
        Inl e \<Rightarrow> Inl e
      | Inr None \<Rightarrow>
          resources_loop filter_override_rule filter_state app_gate_wafs resources result
      | Inr (Some waf_policy_name) \<Rightarrow>
     (case wafs_loop filter_override_rule filter_state resource waf_policy_name
             app_gate_wafs result of
        Inl e \<Rightarrow> Inl e
      | Inr result' \<Rightarrow>
          resources_loop filter_override_rule filter_state app_gate_wafs resources
            result'))"

text \<open>
  \<^verbatim>\<open>process(self, resources)\<close>: \<open>data\<close> is \<^verbatim>\<open>self.data\<close>, \<open>c\<close> the client that
  \<^verbatim>\<open>self.manager.get_client()\<close> returns. The result is the returned list or the
  exception raised, and the client after the call.
\<close>

definition process ::
  "(string \<times> pyval) list \<Rightarrow> client \<Rightarrow> pyval list \<Rightarrow> (py_error + pyval list) \<times> client" where
  "process data c resources =
     (let filter_override_rule = dict_get data ''override_rule'';
          filter_state = dict_get data ''state'';
          (app_gate_wafs, c') = list_all_policies c
      in (resources_loop filter_override_rule filter_state app_gate_wafs resources [], c'))"

subsection \<open>The declared schema\<close>

text \<open>
  Lines 61--67: the arguments of \<^verbatim>\<open>type_schema\<close>, as data. A property is declared
  with a JSON type and, optionally, the list of its allowed values.
\<close>

datatype json_type = JNumber | JString

record property_schema =
  json_type_of :: json_type
  enum :: "pyval list option"

record type_schema_args =
  type_name :: string
  required :: "string list"
  props :: "(string \<times> property_schema) list"

definition schema :: type_schema_args where
  "schema =
     \<lparr>type_name = ''waf'',
      required = [''override_rule'', ''state''],
      props =
        [(''override_rule'', \<lparr>json_type_of = JNumber, enum = None\<rparr>),
         (''state'', \<lparr>json_type_of = JString, enum = Some [PStr ''disabled'']\<rparr>)]\<rparr>"

text \<open>
  Modelled from the spec: the validation of a filter spec against its declared schema
  (\<^verbatim>\<open>c7n.utils.type_schema\<close> and the JSON-schema validator of the host engine are
  not part of this file). The spec's words: the record is "validated against a schema
  requiring \<^verbatim>\<open>override_rule\<close> (number) and \<^verbatim>\<open>state\<close> (string, restricted to the
  literal value "disabled")". A number is an integer or a float, not a boolean.
\<close>

fun has_json_type :: "json_type \<Rightarrow> pyval \<Rightarrow> bool" where
  "has_json_type JNumber (PInt n) = True"
| "has_json_type JNumber (PFloat q) = True"
| "has_json_type JString (PStr s) = True"
| "has_json_type _ _ = False"

definition valid_property :: "property_schema \<Rightarrow> pyval \<Rightarrow> bool" where
  "valid_property ps v =
     (has_json_type (json_type_of ps) v
      \<and> (case enum ps of None \<Rightarrow> True | Some vs \<Rightarrow> v \<in> set vs))"

definition validate :: "type_schema_args \<Rightarrow> (string \<times> pyval) list \<Rightarrow> bool" where
  "validate sch data =
     (list_all (\<lambda>k. map_of data k \<noteq> None) (required sch)
      \<and> list_all
          (\<lambda>kp. case map_of data (fst kp) of
                   None \<Rightarrow> True
                 | Some v \<Rightarrow> valid_property (snd kp) v)
          (props sch))"

text \<open>
  Modelled from the spec: the policy runner of the host engine (not part of this file),
  which "validates each FilterSpec's parameters against its declared schema before any
  enumeration happens (fail fast)", then enumerates the resources and applies the filter.
  The backend counts the calls of its resource listing.
\<close>

datatype run_error = ValidationError | Raised py_error

record backend =
  gateways :: "pyval list"
  enumerate_calls :: nat
  network_client :: client

definition enumerate_resources :: "backend \<Rightarrow> pyval list \<times> backend" where
  "enumerate_resources b = (gateways b, b\<lparr>enumerate_calls := Suc (enumerate_calls b)\<rparr>)"

definition run :: "(string \<times> pyval) list \<Rightarrow> backend \<Rightarrow> (run_error + pyval list) \<times> backend" where
  "run data b =
     (if \<not> validate schema data then (Inl ValidationError, b)
      else
        (let (resources, b') = enumerate_resources b;
             (r, c') = process data (network_client b') resources
         in (case r of Inl e \<Rightarrow> Inl (Raised e) | Inr result \<Rightarrow> Inr result,
             b'\<lparr>network_client := c'\<rparr>)))"

subsection \<open>The specification's view of a policy\<close>

text \<open>
  The spec describes a policy as
  \<^verbatim>\<open>properties.managedRules.managedRuleSets[].ruleGroupOverrides[].rules[]\<close>, each
  rule with a \<^verbatim>\<open>ruleId\<close> and a \<^verbatim>\<open>state\<close>. The definitions below follow those words,
  not the loops of \<^verbatim>\<open>process\<close>: \<open>list_field\<close> reads a field that holds a list (and
  is empty when there is none), \<open>policy_rules\<close> collects every rule of the nesting.
\<close>

definition list_field :: "string \<Rightarrow> pyval \<Rightarrow> pyval list" where
  "list_field k v =
     (case v of
        PDict d \<Rightarrow> (case dict_get d k of PList xs \<Rightarrow> xs | _ \<Rightarrow> [])
      | _ \<Rightarrow> [])"

definition has_list_field :: "string \<Rightarrow> pyval \<Rightarrow> bool" where
  "has_list_field k v =
     (case v of
        PDict d \<Rightarrow> (case dict_get d k of PList xs \<Rightarrow> True | _ \<Rightarrow> False)
      | _ \<Rightarrow> False)"

definition policy_properties :: "waf_policy \<Rightarrow> pyval" where
  "policy_properties w = dict_get (serialize w) ''properties''"

definition policy_rule_sets :: "waf_policy \<Rightarrow> pyval list" where
  "policy_rule_sets w =
     (case policy_properties w of
        PDict p \<Rightarrow> list_field ''managedRuleSets'' (dict_get p ''managedRules'')
      | _ \<Rightarrow> [])"

definition rule_set_rules :: "pyval \<Rightarrow> pyval list" where
  "rule_set_rules rule_set =
     concat (map (list_field ''rules'') (list_field ''ruleGroupOverrides'' rule_set))"

definition policy_rules :: "waf_policy \<Rightarrow> pyval list" where
  "policy_rules w = concat (map rule_set_rules (policy_rule_sets w))"

text \<open>
  A rule "whose ruleId equals override\_rule and whose state equals the filter's state
  case-insensitively".
\<close>

definition rule_matches :: "pyval \<Rightarrow> string \<Rightarrow> pyval \<Rightarrow> bool" where
  "rule_matches override_rule state rule =
     (case rule of
        PDict d \<Rightarrow>
          (case py_int (dict_get d ''ruleId'') of
             Inr n \<Rightarrow> py_eq_int override_rule n
           | Inl e \<Rightarrow> False)
          \<and> (case dict_get d ''state'' of
               PStr s \<Rightarrow> str_lower s = str_lower state
             | _ \<Rightarrow> False)
      | _ \<Rightarrow> False)"

text \<open>
  A policy without traversal gaps: every level of the nesting is there, every rule has
  a \<^verbatim>\<open>ruleId\<close> that \<^verbatim>\<open>int\<close> accepts and a \<^verbatim>\<open>state\<close> that is a string.
\<close>

definition complete_rule :: "pyval \<Rightarrow> bool" where
  "complete_rule rule =
     (case rule of
        PDict d \<Rightarrow>
          (case py_int (dict_get d ''ruleId'') of Inr n \<Rightarrow> True | Inl e \<Rightarrow> False)
          \<and> (case dict_get d ''state'' of PStr s \<Rightarrow> True | _ \<Rightarrow> False)
      | _ \<Rightarrow> False)"

definition complete_group :: "pyval \<Rightarrow> bool" where
  "complete_group g =
     (has_list_field ''rules'' g \<and> list_all complete_rule (list_field ''rules'' g))"

definition complete_rule_set :: "pyval \<Rightarrow> bool" where
  "complete_rule_set rule_set =
     (has_list_field ''ruleGroupOverrides'' rule_set
      \<and> list_all complete_group (list_field ''ruleGroupOverrides'' rule_set))"

definition complete_policy :: "waf_policy \<Rightarrow> bool" where
  "complete_policy w =
     (case policy_properties w of
        PDict p \<Rightarrow>
          has_list_field ''managedRuleSets'' (dict_get p ''managedRules'')
          \<and> list_all complete_rule_set (policy_rule_sets w)
      | _ \<Rightarrow> False)"

text \<open>The policies whose id is the one a resource refers to.\<close>

definition referenced_policies :: "waf_policy list \<Rightarrow> string \<Rightarrow> waf_policy list" where
  "referenced_policies ps name = filter (\<lambda>w. waf_id w = Some name) ps"

text \<open>Changing the case of letters of a string: each character may be replaced by its
  capital or its small letter.\<close>

definition upper_char :: "char \<Rightarrow> char" where
  "upper_char c =
     (case map_of (zip ascii_lowercase ascii_uppercase) c of Some u \<Rightarrow> u | None \<Rightarrow> c)"

definition same_letter :: "char \<Rightarrow> char \<Rightarrow> bool" where
  "same_letter c c' = (c' = c \<or> c' = lower_char c \<or> c' = upper_char c)"

definition case_variant :: "string \<Rightarrow> string \<Rightarrow> bool" where
  "case_variant s s' = list_all2 same_letter s s'"

subsection \<open>Concrete gateways and policies\<close>

text \<open>
  Builders for the inputs the properties below are run on: a gateway as the enumeration
  returns it, a reference to a policy in its properties, and a policy as the SDK
  serialises it, level by level.
\<close>

definition gateway :: "string \<Rightarrow> (string \<times> pyval) list \<Rightarrow> pyval" where
  "gateway name properties =
     PDict [(''name'', PStr name), (''location'', PStr ''westeurope''),
            (''properties'', PDict properties)]"

definition policy_ref :: "string \<Rightarrow> string \<times> pyval" where
  "policy_ref pid = (''firewallPolicy'', PDict [(''id'', PStr pid)])"

definition serialized_policy :: "string \<Rightarrow> (string \<times> pyval) list \<Rightarrow> waf_policy" where
  "serialized_policy pid properties =
     \<lparr>waf_id = Some pid,
      serialize = [(''id'', PStr pid), (''properties'', PDict properties)]\<rparr>"

definition policy_of_rule_sets :: "string \<Rightarrow> pyval list \<Rightarrow> waf_policy" where
  "policy_of_rule_sets pid rule_sets =
     serialized_policy pid
       [(''managedRules'', PDict [(''managedRuleSets'', PList rule_sets)])]"

definition rule_set_of_groups :: "pyval list \<Rightarrow> pyval" where
  "rule_set_of_groups grps =
     PDict [(''ruleSetType'', PStr ''OWASP''), (''ruleSetVersion'', PStr ''3.2''),
            (''ruleGroupOverrides'', PList grps)]"

definition group_of_rules :: "pyval list \<Rightarrow> pyval" where
  "group_of_rules rules =
     PDict [(''ruleGroupName'', PStr ''REQUEST-944-APPLICATION-ATTACK-JAVA''),
            (''rules'', PList rules)]"

definition rule_override :: "string \<Rightarrow> string \<Rightarrow> pyval" where
  "rule_override rule_id state = PDict [(''ruleId'', PStr rule_id), (''state'', PStr state)]"

definition policy_of_rules :: "string \<Rightarrow> pyval list \<Rightarrow> waf_policy" where
  "policy_of_rules pid rules =
     policy_of_rule_sets pid [rule_set_of_groups [group_of_rules rules]]"

definition client_of :: "waf_policy list \<Rightarrow> client" where
  "client_of ps = \<lparr>policies = ps, list_all_calls = 0\<rparr>"

text \<open>The filter of the docstring: \<^verbatim>\<open>type: waf, override_rule: 944240, state: disabled\<close>.\<close>

definition waf_data :: "(string \<times> pyval) list" where
  "waf_data =
     [(''type'', PStr ''waf''), (''override_rule'', PInt 944240),
      (''state'', PStr ''disabled'')]"

text \<open>
  The three gateways of the end-to-end property: \<open>A\<close> has no firewall policy, \<open>B\<close>
  refers to a policy with rule 944240 disabled, \<open>C\<close> to one with rule 944240 enabled.
\<close>

definition gateway_A :: pyval where
  "gateway_A = gateway ''A'' [(''provisioningState'', PStr ''Succeeded'')]"

definition gateway_B :: pyval where
  "gateway_B = gateway ''B'' [policy_ref ''policy-B'']"

definition gateway_C :: pyval where
  "gateway_C = gateway ''C'' [policy_ref ''policy-C'']"

definition policy_B :: waf_policy where
  "policy_B = policy_of_rules ''policy-B'' [rule_override ''944240'' ''disabled'']"

definition policy_C :: waf_policy where
  "policy_C = policy_of_rules ''policy-C'' [rule_override ''944240'' ''enabled'']"

section \<open>Properties\<close>

subsection \<open>Evaluating the filter on concrete inputs\<close>

lemmas builders = gateway_def policy_ref_def serialized_policy_def policy_of_rule_sets_def
  rule_set_of_groups_def group_of_rules_def rule_override_def policy_of_rules_def
  client_of_def waf_data_def gateway_A_def gateway_B_def gateway_C_def policy_B_def
  policy_C_def

lemmas run_defs = process_def list_all_policies_def dict_get_def dict_get_default_def
  firewall_policy_id_def managed_rule_sets_def rule_cond_def

lemmas str_defs = int_of_str_def strip_def is_space_def parse_nat_def is_digit_def
  digit_val_def str_lower_def lower_char_def ascii_uppercase_def ascii_lowercase_def

subsection \<open>The loops on a policy without gaps\<close>

text \<open>
  On complete data no loop raises, and each loop appends the resource once for every
  rule it meets that satisfies the condition.
\<close>

lemma rule_cond_complete:
  "complete_rule rule \<Longrightarrow> rule_cond fo (PStr st) rule = Inr (rule_matches fo st rule)"
  by (auto simp: complete_rule_def rule_cond_def rule_matches_def
      split: pyval.splits sum.splits)

lemma rules_loop_complete:
  "list_all complete_rule rules \<Longrightarrow>
   rules_loop fo (PStr st) r rules acc =
     Inr (acc @ replicate (length (filter (rule_matches fo st) rules)) r)"
proof (induction rules arbitrary: acc)
  case Nil
  then show ?case by simp
next
  case (Cons rule rules)
  then show ?case
    by (simp add: rule_cond_complete replicate_append_same)
qed

lemma py_get_list_field:
  "has_list_field k v \<Longrightarrow> \<exists>x. py_get v k = Inr x \<and> py_iter x = Inr (list_field k v)"
  by (auto simp: has_list_field_def list_field_def split: pyval.splits)

lemma groups_loop_complete:
  "list_all complete_group gs \<Longrightarrow>
   groups_loop fo (PStr st) r gs acc =
     Inr (acc @ replicate
        (length (filter (rule_matches fo st) (concat (map (list_field ''rules'') gs)))) r)"
proof (induction gs arbitrary: acc)
  case Nil
  then show ?case by simp
next
  case (Cons g gs)
  from Cons.prems have cg: "complete_group g" and gs: "list_all complete_group gs"
    by simp_all
  from cg have g: "has_list_field ''rules'' g"
    and rs: "list_all complete_rule (list_field ''rules'' g)"
    by (simp_all add: complete_group_def)
  from py_get_list_field [OF g] obtain x where
    x: "py_get g ''rules'' = Inr x" "py_iter x = Inr (list_field ''rules'' g)" by blast
  show ?case
    by (simp add: x rules_loop_complete [OF rs] Cons.IH [OF gs] replicate_add)
qed

lemma rule_sets_loop_complete:
  "list_all complete_rule_set rss \<Longrightarrow>
   rule_sets_loop fo (PStr st) r rss acc =
     Inr (acc @ replicate
        (length (filter (rule_matches fo st) (concat (map rule_set_rules rss)))) r)"
proof (induction rss arbitrary: acc)
  case Nil
  then show ?case by simp
next
  case (Cons rs rss)
  from Cons.prems have crs: "complete_rule_set rs"
    and rss: "list_all complete_rule_set rss"
    by simp_all
  from crs have g: "has_list_field ''ruleGroupOverrides'' rs"
    and gs: "list_all complete_group (list_field ''ruleGroupOverrides'' rs)"
    by (simp_all add: complete_rule_set_def)
  from py_get_list_field [OF g] obtain x where
    x: "py_get rs ''ruleGroupOverrides'' = Inr x"
       "py_iter x = Inr (list_field ''ruleGroupOverrides'' rs)" by blast
  show ?case
    by (simp add: x groups_loop_complete [OF gs] Cons.IH [OF rss] replicate_add
        rule_set_rules_def)
qed

lemma managed_rule_sets_complete:
  "complete_policy w \<Longrightarrow> managed_rule_sets w = Inr (policy_rule_sets w)"
  by (auto simp: complete_policy_def managed_rule_sets_def policy_rule_sets_def
      policy_properties_def dict_get_def dict_get_default_def has_list_field_def
      list_field_def split: pyval.splits option.splits)

lemma id_ne_PStr: "id_ne i (PStr name) = (i \<noteq> Some name)"
  by (cases i) auto

lemma wafs_loop_complete:
  "list_all complete_policy (referenced_policies ws name) \<Longrightarrow>
   wafs_loop fo (PStr st) r (PStr name) ws acc =
     Inr (acc @ replicate
        (length (filter (rule_matches fo st)
           (concat (map policy_rules (referenced_policies ws name))))) r)"
proof (induction ws arbitrary: acc)
  case Nil
  then show ?case by (simp add: referenced_policies_def)
next
  case (Cons w ws)
  show ?case
  proof (cases "waf_id w = Some name")
    case True
    with Cons.prems have w: "complete_policy w"
      and ws: "list_all complete_policy (referenced_policies ws name)"
      by (simp_all add: referenced_policies_def)
    have rss: "list_all complete_rule_set (policy_rule_sets w)"
      using w by (auto simp: complete_policy_def split: pyval.splits)
    show ?thesis
      using True
      by (simp add: id_ne_PStr managed_rule_sets_complete [OF w]
          rule_sets_loop_complete [OF rss] Cons.IH [OF ws] replicate_add
          referenced_policies_def policy_rules_def)
  next
    case False
    with Cons.prems have ws: "list_all complete_policy (referenced_policies ws name)"
      by (simp add: referenced_policies_def)
    show ?thesis
      using False by (simp add: id_ne_PStr Cons.IH [OF ws] referenced_policies_def)
  qed
qed

lemma resources_loop_append:
  "resources_loop fo fs ws (xs @ ys) acc =
     (case resources_loop fo fs ws xs acc of
        Inl e \<Rightarrow> Inl e
      | Inr acc' \<Rightarrow> resources_loop fo fs ws ys acc')"
  by (induction xs arbitrary: acc) (auto split: sum.splits option.splits)

lemma wafs_loop_no_policy:
  "\<forall>w\<in>set ws. id_ne (waf_id w) v \<Longrightarrow> wafs_loop fo fs r v ws acc = Inr acc"
  by (induction ws) auto

lemma process_append:
  "fst (process data c (xs @ ys)) =
     (case fst (process data c xs) of
        Inl e \<Rightarrow> Inl e
      | Inr acc \<Rightarrow>
          resources_loop (dict_get data ''override_rule'') (dict_get data ''state'')
            (policies c) ys acc)"
  by (simp add: process_def list_all_policies_def resources_loop_append Let_def)

text \<open>A resource that leaves \<^verbatim>\<open>result\<close> as it is can be taken out of the input.\<close>

lemma process_skip:
  assumes "\<And>acc. resources_loop (dict_get data ''override_rule'') (dict_get data ''state'')
            (policies c) [r] acc = Inr acc"
  shows "process data c (pre @ r # post) = process data c (pre @ post)"
proof -
  have "resources_loop fo fs ws (pre @ [r] @ post) acc = resources_loop fo fs ws (pre @ post) acc"
    if "\<And>acc. resources_loop fo fs ws [r] acc = Inr acc" for fo fs ws acc
    using that by (simp only: resources_loop_append split: sum.splits) simp
  from this [OF assms] show ?thesis
    by (simp add: process_def list_all_policies_def)
qed

lemma replicate_mem: "x \<in> set (replicate k x) \<longleftrightarrow> 0 < k"
  by (cases k) auto

text \<open>
  On policies without gaps the filter does what the spec describes: the resource is
  returned if and only if some rule of the nesting of a referenced policy matches.
\<close>

lemma complete_policies_membership:
  assumes "dict_get data ''state'' = PStr state"
    and "firewall_policy_id resource = Inr (Some (PStr name))"
    and "list_all complete_policy (referenced_policies (policies c) name)"
  shows "\<exists>result. fst (process data c [resource]) = Inr result
    \<and> (resource \<in> set result \<longleftrightarrow>
        (\<exists>w\<in>set (referenced_policies (policies c) name).
         \<exists>rule_set\<in>set (policy_rule_sets w).
         \<exists>g\<in>set (list_field ''ruleGroupOverrides'' rule_set).
         \<exists>rule\<in>set (list_field ''rules'' g).
           rule_matches (dict_get data ''override_rule'') state rule))"
proof -
  let ?fo = "dict_get data ''override_rule''"
  let ?rules = "concat (map policy_rules (referenced_policies (policies c) name))"
  let ?k = "length (filter (rule_matches ?fo state) ?rules)"
  have run: "fst (process data c [resource]) = Inr (replicate ?k resource)"
    by (simp add: process_def list_all_policies_def assms(1,2)
        wafs_loop_complete [OF assms(3)])
  have "0 < ?k \<longleftrightarrow> (\<exists>rule\<in>set ?rules. rule_matches ?fo state rule)"
    by (simp add: length_greater_0_conv filter_empty_conv del: set_concat)
  also have "\<dots> \<longleftrightarrow> (\<exists>w\<in>set (referenced_policies (policies c) name).
         \<exists>rule_set\<in>set (policy_rule_sets w).
         \<exists>g\<in>set (list_field ''ruleGroupOverrides'' rule_set).
         \<exists>rule\<in>set (list_field ''rules'' g). rule_matches ?fo state rule)"
    by (auto simp: policy_rules_def rule_set_rules_def)
  finally show ?thesis
    using run by (simp add: replicate_mem)
qed

text \<open>With two complete rule sets, a match in the second one is found.\<close>

lemma second_rule_set_scanned:
  "fst (process waf_data
         (client_of [policy_of_rule_sets ''policy-B''
            [rule_set_of_groups [group_of_rules [rule_override ''942100'' ''Disabled'']],
             rule_set_of_groups [group_of_rules [rule_override ''944240'' ''Disabled'']]]])
         [gateway_B]) = Inr [gateway_B]"
  by (simp add: builders run_defs str_defs)

subsection \<open>Letter case\<close>

lemma lower_char_lower: "lower_char (lower_char c) = lower_char c"
  by (simp add: lower_char_def ascii_uppercase_def ascii_lowercase_def)

lemma lower_char_upper: "lower_char (upper_char c) = lower_char c"
  by (simp add: lower_char_def upper_char_def ascii_uppercase_def ascii_lowercase_def)

lemma same_letter_lower: "same_letter c c' \<Longrightarrow> lower_char c' = lower_char c"
  by (auto simp: same_letter_def lower_char_lower lower_char_upper)

lemma case_variant_lower: "case_variant s s' \<Longrightarrow> str_lower s' = str_lower s"
  unfolding case_variant_def str_lower_def
  by (induction s s' rule: list_all2_induct) (simp_all add: same_letter_lower)

subsection \<open>JSON types\<close>

lemma has_json_number: "has_json_type JNumber v \<longleftrightarrow> (\<exists>n. v = PInt n) \<or> (\<exists>q. v = PFloat q)"
  by (cases v) simp_all

lemma has_json_string: "has_json_type JString v \<longleftrightarrow> (\<exists>s. v = PStr s)"
  by (cases v) simp_all

subsection \<open>The claims\<close>

text \<open>
  C3. End to end: of the three gateways \<open>A\<close> (no \<^verbatim>\<open>firewallPolicy\<close> in its
  properties), \<open>B\<close> (its policy has the override rule 944240 with state "disabled") and
  \<open>C\<close> (its policy has the rule 944240 with state "enabled"), the filter
  \<^verbatim>\<open>{override_rule: 944240, state: "disabled"}\<close> returns exactly \<open>[B]\<close>.
\<close>

theorem waf_end_to_end:
  "fst (process waf_data (client_of [policy_B, policy_C]) [gateway_A, gateway_B, gateway_C])
     = Inr [gateway_B]"
  by (simp add: builders run_defs str_defs)

text \<open>
  C8. One call of \<^verbatim>\<open>process\<close> calls \<^verbatim>\<open>list_all\<close> exactly once (so at most once),
  however many resources there are and whether or not the loops raise, and leaves the
  client otherwise as it was. The list that one call returned is the list every resource
  is matched against: with no resource the result is empty, and the run on
  \<open>resources @ [resource]\<close> is the run on \<open>resources\<close> followed by lines 79--93 for
  \<open>resource\<close> on that same list.
\<close>

theorem process_lists_policies_once:
  "snd (process data c resources) = c\<lparr>list_all_calls := Suc (list_all_calls c)\<rparr>
   \<and> list_all_calls (snd (process data c resources)) = list_all_calls c + 1
   \<and> fst (process data c []) = Inr []
   \<and> fst (process data c (resources @ [resource])) =
       (case fst (process data c resources) of
          Inl e \<Rightarrow> Inl e
        | Inr result \<Rightarrow>
       (case firewall_policy_id resource of
          Inl e \<Rightarrow> Inl e
        | Inr None \<Rightarrow> Inr result
        | Inr (Some waf_policy_name) \<Rightarrow>
            wafs_loop (dict_get data ''override_rule'') (dict_get data ''state'') resource
              waf_policy_name (fst (list_all_policies c)) result))"
proof (intro conjI)
  show "snd (process data c resources) = c\<lparr>list_all_calls := Suc (list_all_calls c)\<rparr>"
    and "list_all_calls (snd (process data c resources)) = list_all_calls c + 1"
    and "fst (process data c []) = Inr []"
    by (simp_all add: process_def list_all_policies_def)
next
  have fetched: "fst (list_all_policies c) = policies c"
    by (simp add: list_all_policies_def)
  show "fst (process data c (resources @ [resource])) =
       (case fst (process data c resources) of
          Inl e \<Rightarrow> Inl e
        | Inr result \<Rightarrow>
       (case firewall_policy_id resource of
          Inl e \<Rightarrow> Inl e
        | Inr None \<Rightarrow> Inr result
        | Inr (Some waf_policy_name) \<Rightarrow>
            wafs_loop (dict_get data ''override_rule'') (dict_get data ''state'') resource
              waf_policy_name (fst (list_all_policies c)) result))"
    by (simp add: process_append fetched split: sum.splits option.splits)
qed

theorem process_lists_policies_once_witness:
  "list_all_calls (snd (process waf_data (client_of [policy_B, policy_C]) [])) = 1
   \<and> list_all_calls (snd (process waf_data (client_of [policy_B, policy_C])
        [gateway_A, gateway_B, gateway_C])) = 1
   \<and> list_all_calls (snd (process waf_data (client_of [serialized_policy ''policy-B'' []])
        [gateway_B])) = 1
   \<and> fst (process waf_data (client_of [policy_B, policy_C]) ([gateway_C] @ [gateway_B]))
       = Inr [gateway_B]"
proof -
  have c: "fst (process waf_data (client_of [policy_B, policy_C]) [gateway_C]) = Inr []"
    by (simp add: builders run_defs str_defs)
  from process_lists_policies_once [of waf_data "client_of [policy_B, policy_C]" "[]"]
    process_lists_policies_once [of waf_data "client_of [policy_B, policy_C]"
      "[gateway_A, gateway_B, gateway_C]"]
    process_lists_policies_once [of waf_data "client_of [serialized_policy ''policy-B'' []]"
      "[gateway_B]"]
    process_lists_policies_once [of waf_data "client_of [policy_B, policy_C]"
      "[gateway_C]" gateway_B] c
  show ?thesis
    by (simp add: builders list_all_policies_def firewall_policy_id_def dict_get_def
        dict_get_default_def managed_rule_sets_def rule_cond_def str_defs)
qed

text \<open>
  C1. The claim is that a resource passing the filter is returned exactly once. The code
  has no \<^verbatim>\<open>break\<close> after \<^verbatim>\<open>result.append(resource)\<close>: gateway \<open>B\<close>, whose policy
  overrides rule 944240 twice (states "disabled" and "Disabled"), is returned twice.
\<close>

theorem process_repeats_resource:
  "fst (process waf_data
         (client_of [policy_of_rules ''policy-B''
            [rule_override ''944240'' ''disabled'', rule_override ''944240'' ''Disabled'']])
         [gateway_A, gateway_B])
     = Inr [gateway_B, gateway_B]"
  by (simp add: builders run_defs str_defs)

text \<open>
  C2. The claim is that a traversal gap means "no match" and never an error. In the code
  \<^verbatim>\<open>get\<close> returns \<^verbatim>\<open>None\<close> at a gap and the next step raises: a rule set without
  \<^verbatim>\<open>ruleGroupOverrides\<close>, serialised properties without \<^verbatim>\<open>managedRules\<close>, managed
  rules without \<^verbatim>\<open>managedRuleSets\<close>, a group without \<^verbatim>\<open>rules\<close>, a rule without
  \<^verbatim>\<open>ruleId\<close>, and a rule with the filter's id and without \<^verbatim>\<open>state\<close>, in this order.
\<close>

theorem process_raises_at_traversal_gap:
  "fst (process waf_data
         (client_of [policy_of_rule_sets ''policy-B''
            [PDict [(''ruleSetType'', PStr ''OWASP''), (''ruleSetVersion'', PStr ''3.2'')]]])
         [gateway_B]) = Inl TypeError
   \<and> fst (process waf_data (client_of [serialized_policy ''policy-B'' []]) [gateway_B])
       = Inl AttributeError
   \<and> fst (process waf_data
         (client_of [serialized_policy ''policy-B'' [(''managedRules'', PDict [])]])
         [gateway_B]) = Inl TypeError
   \<and> fst (process waf_data
         (client_of [policy_of_rule_sets ''policy-B''
            [rule_set_of_groups [PDict [(''ruleGroupName'', PStr ''General'')]]]])
         [gateway_B]) = Inl TypeError
   \<and> fst (process waf_data
         (client_of [policy_of_rules ''policy-B'' [PDict [(''state'', PStr ''Disabled'')]]])
         [gateway_B]) = Inl TypeError
   \<and> fst (process waf_data
         (client_of [policy_of_rules ''policy-B'' [PDict [(''ruleId'', PStr ''944240'')]]])
         [gateway_B]) = Inl AttributeError"
  by (simp add: builders run_defs str_defs)

text \<open>
  C4. The claim is that a resource whose policy was fetched is returned if and only if
  some rule of the policy's nesting matches, and that with two rule sets of which only
  the second holds the matching rule the resource is still returned. Policy \<open>B\<close> below
  has two rule sets: a bot-protection rule set without overrides, then an OWASP rule set
  that disables rule 944240. That rule is a rule of the policy and matches the filter,
  but \<^verbatim>\<open>process\<close> raises at the first rule set and returns nothing.
\<close>

theorem process_raises_before_second_rule_set:
  "rule_override ''944240'' ''Disabled''
     \<in> set (policy_rules (policy_of_rule_sets ''policy-B''
          [PDict [(''ruleSetType'', PStr ''Microsoft_BotManagerRuleSet''),
                  (''ruleSetVersion'', PStr ''0.1'')],
           rule_set_of_groups [group_of_rules [rule_override ''944240'' ''Disabled'']]]))
   \<and> rule_matches (PInt 944240) ''disabled'' (rule_override ''944240'' ''Disabled'')
   \<and> fst (process waf_data
         (client_of [policy_of_rule_sets ''policy-B''
            [PDict [(''ruleSetType'', PStr ''Microsoft_BotManagerRuleSet''),
                    (''ruleSetVersion'', PStr ''0.1'')],
             rule_set_of_groups [group_of_rules [rule_override ''944240'' ''Disabled'']]]])
         [gateway_B]) = Inl TypeError"
  by (simp add: builders run_defs str_defs policy_rules_def policy_rule_sets_def
      policy_properties_def rule_set_rules_def list_field_def rule_matches_def)

text \<open>
  C5. The state comparison ignores letter case: a rule with state "Disabled" matches the
  filter state "disabled", and changing the case of letters of the filter's state, of the
  rule's state, or of both, never changes the outcome of the condition.
\<close>

theorem state_comparison_ignores_case:
  "rule_cond (PInt 944240) (PStr ''disabled'') (rule_override ''944240'' ''Disabled'')
     = Inr True
   \<and> (case_variant filter_state filter_state' \<and> case_variant s s'
       \<and> dict_get d ''state'' = PStr s \<and> dict_get d' ''state'' = PStr s'
       \<and> dict_get d' ''ruleId'' = dict_get d ''ruleId''
       \<longrightarrow> rule_cond fo (PStr filter_state') (PDict d')
             = rule_cond fo (PStr filter_state) (PDict d))"
proof (intro conjI impI)
  show "rule_cond (PInt 944240) (PStr ''disabled'') (rule_override ''944240'' ''Disabled'')
     = Inr True"
    by (simp add: rule_override_def rule_cond_def dict_get_def str_defs)
next
  assume a: "case_variant filter_state filter_state' \<and> case_variant s s'
       \<and> dict_get d ''state'' = PStr s \<and> dict_get d' ''state'' = PStr s'
       \<and> dict_get d' ''ruleId'' = dict_get d ''ruleId''"
  then have "str_lower filter_state' = str_lower filter_state" "str_lower s' = str_lower s"
    by (simp_all add: case_variant_lower)
  with a show "rule_cond fo (PStr filter_state') (PDict d')
             = rule_cond fo (PStr filter_state) (PDict d)"
    by (simp add: rule_cond_def split: sum.splits)
qed

theorem state_comparison_ignores_case_witness:
  "case_variant ''disabled'' ''DISABLED''
   \<and> case_variant ''Disabled'' ''disabled''
   \<and> rule_cond (PInt 944240) (PStr ''disabled'') (rule_override ''944240'' ''Disabled'')
       = Inr True
   \<and> rule_cond (PInt 944240) (PStr ''DISABLED'') (rule_override ''944240'' ''disabled'')
       = Inr True"
proof -
  have h: "case_variant ''disabled'' ''DISABLED''
      \<and> case_variant ''Disabled'' ''disabled''
      \<and> dict_get [(''ruleId'', PStr ''944240''), (''state'', PStr ''Disabled'')] ''state''
          = PStr ''Disabled''
      \<and> dict_get [(''ruleId'', PStr ''944240''), (''state'', PStr ''disabled'')] ''state''
          = PStr ''disabled''
      \<and> dict_get [(''ruleId'', PStr ''944240''), (''state'', PStr ''disabled'')] ''ruleId''
          = dict_get [(''ruleId'', PStr ''944240''), (''state'', PStr ''Disabled'')] ''ruleId''"
    by (simp add: case_variant_def same_letter_def lower_char_def upper_char_def
        ascii_uppercase_def ascii_lowercase_def dict_get_def)
  from state_comparison_ignores_case
    [of "''disabled''" "''DISABLED''" "''Disabled''" "''disabled''"
      "[(''ruleId'', PStr ''944240''), (''state'', PStr ''Disabled'')]"
      "[(''ruleId'', PStr ''944240''), (''state'', PStr ''disabled'')]" "PInt 944240"] h
  show ?thesis
    by (simp add: rule_override_def)
qed

text \<open>
  C6. The rule ids are compared as integers, not as strings: the \<^verbatim>\<open>ruleId\<close> string
  "944240" matches \<^verbatim>\<open>override_rule: 944240\<close>; when \<^verbatim>\<open>int\<close> of the rule's
  \<^verbatim>\<open>ruleId\<close> is \<open>n\<close>, a filter with another number never matches the rule, and on a
  rule with a state the condition holds exactly when the numbers are equal and the
  states agree (a float \<^verbatim>\<open>override_rule\<close> is compared by its value).
\<close>

theorem rule_id_comparison_is_numeric:
  "rule_cond (PInt 944240) (PStr ''disabled'') (rule_override ''944240'' ''disabled'')
     = Inr True
   \<and> (py_int (dict_get d ''ruleId'') = Inr n \<and> k \<noteq> n
       \<longrightarrow> rule_cond (PInt k) filter_state (PDict d) = Inr False)
   \<and> (py_int (dict_get d ''ruleId'') = Inr n \<and> dict_get d ''state'' = PStr s
       \<longrightarrow> rule_cond (PInt k) (PStr state) (PDict d)
             = Inr (k = n \<and> str_lower state = str_lower s)
         \<and> rule_cond (PFloat q) (PStr state) (PDict d)
             = Inr (q = of_int n \<and> str_lower state = str_lower s))"
proof (intro conjI impI)
  show "rule_cond (PInt 944240) (PStr ''disabled'') (rule_override ''944240'' ''disabled'')
     = Inr True"
    by (simp add: rule_override_def rule_cond_def dict_get_def str_defs)
next
  assume "py_int (dict_get d ''ruleId'') = Inr n \<and> k \<noteq> n"
  then show "rule_cond (PInt k) filter_state (PDict d) = Inr False"
    by (simp add: rule_cond_def)
next
  assume "py_int (dict_get d ''ruleId'') = Inr n \<and> dict_get d ''state'' = PStr s"
  then show "rule_cond (PInt k) (PStr state) (PDict d)
             = Inr (k = n \<and> str_lower state = str_lower s)"
    and "rule_cond (PFloat q) (PStr state) (PDict d)
             = Inr (q = of_int n \<and> str_lower state = str_lower s)"
    by (simp_all add: rule_cond_def)
qed

theorem rule_id_comparison_is_numeric_witness:
  "py_int (PStr '' 944240'') = Inr 944240
   \<and> rule_cond (PInt 944240) (PStr ''disabled'')
        (PDict [(''ruleId'', PStr '' 944240''), (''state'', PStr ''disabled'')]) = Inr True
   \<and> rule_cond (PFloat 944240) (PStr ''disabled'')
        (PDict [(''ruleId'', PStr '' 944240''), (''state'', PStr ''disabled'')]) = Inr True
   \<and> rule_cond (PInt 94424) PNone
        (PDict [(''ruleId'', PStr '' 944240''), (''state'', PStr ''disabled'')]) = Inr False"
proof -
  have 1: "py_int (PStr '' 944240'') = Inr 944240"
    by (simp add: str_defs)
  have h: "py_int (dict_get [(''ruleId'', PStr '' 944240''), (''state'', PStr ''disabled'')]
             ''ruleId'') = Inr 944240
       \<and> dict_get [(''ruleId'', PStr '' 944240''), (''state'', PStr ''disabled'')] ''state''
           = PStr ''disabled''"
    using 1 by (simp add: dict_get_def)
  from rule_id_comparison_is_numeric
      [where d = "[(''ruleId'', PStr '' 944240''), (''state'', PStr ''disabled'')]"
         and n = 944240 and k = 944240 and s = "''disabled''" and state = "''disabled''"
         and q = 944240]
    rule_id_comparison_is_numeric
      [where d = "[(''ruleId'', PStr '' 944240''), (''state'', PStr ''disabled'')]"
         and n = 944240 and k = 94424 and filter_state = PNone] h 1
  show ?thesis by simp
qed

text \<open>
  C7. A resource that refers to a firewall policy whose id is the id of no fetched
  policy is excluded, whatever \<^verbatim>\<open>override_rule\<close> and \<^verbatim>\<open>state\<close> are: alone it gives
  the empty result, and among other resources it adds nothing to theirs.
\<close>

theorem unknown_policy_excluded:
  assumes "firewall_policy_id resource = Inr (Some waf_policy_name)"
    and "\<forall>w\<in>set (policies c). id_ne (waf_id w) waf_policy_name"
  shows "fst (process data c [resource]) = Inr []
    \<and> process data c (pre @ resource # post) = process data c (pre @ post)"
proof -
  have one: "resources_loop fo fs (policies c) [resource] acc = Inr acc" for fo fs acc
    by (simp add: assms(1) wafs_loop_no_policy [OF assms(2)])
  have "fst (process data c [resource]) = Inr []"
    by (simp add: process_def list_all_policies_def one del: resources_loop.simps)
  moreover have "process data c (pre @ resource # post) = process data c (pre @ post)"
    by (rule process_skip) (rule one)
  ultimately show ?thesis by simp
qed

theorem unknown_policy_excluded_witness:
  "firewall_policy_id gateway_B = Inr (Some (PStr ''policy-B''))
   \<and> waf_id policy_C = Some ''policy-C''
   \<and> fst (process waf_data (client_of [policy_C]) [gateway_B]) = Inr []
   \<and> process waf_data (client_of [policy_C]) [gateway_C, gateway_B, gateway_A]
       = process waf_data (client_of [policy_C]) [gateway_C, gateway_A]"
proof -
  have 1: "firewall_policy_id gateway_B = Inr (Some (PStr ''policy-B''))"
    by (simp add: builders firewall_policy_id_def)
  have 2: "\<forall>w\<in>set (policies (client_of [policy_C])). id_ne (waf_id w) (PStr ''policy-B'')"
    by (simp add: builders)
  have 3: "waf_id policy_C = Some ''policy-C''"
    by (simp add: builders)
  from unknown_policy_excluded [OF 1 2, of waf_data "[gateway_C]" "[gateway_A]"] 1 3
  show ?thesis by simp
qed

text \<open>
  C9. The declared schema accepts a filter spec exactly when it has an
  \<^verbatim>\<open>override_rule\<close> that is a number and a \<^verbatim>\<open>state\<close> that is the string "disabled";
  a spec that is not accepted stops the run with a validation error before the resources
  are enumerated (the backend is as it was, no listing was called).
\<close>

theorem schema_accepts_iff:
  "(validate schema data \<longleftrightarrow>
      (\<exists>v. map_of data ''override_rule'' = Some v
           \<and> ((\<exists>n. v = PInt n) \<or> (\<exists>q. v = PFloat q)))
      \<and> map_of data ''state'' = Some (PStr ''disabled''))
   \<and> (\<not> validate schema data \<longrightarrow> run data b = (Inl ValidationError, b))"
  by (auto simp: validate_def schema_def valid_property_def run_def has_json_number
      has_json_string split: option.splits)

theorem schema_accepts_iff_witness:
  "validate schema waf_data
   \<and> \<not> validate schema [(''type'', PStr ''waf''), (''override_rule'', PInt 944240),
                          (''state'', PStr ''enabled'')]
   \<and> \<not> validate schema [(''type'', PStr ''waf''), (''state'', PStr ''disabled'')]
   \<and> run [(''type'', PStr ''waf''), (''state'', PStr ''disabled'')]
        \<lparr>gateways = [gateway_A, gateway_B, gateway_C], enumerate_calls = 0,
          network_client = client_of [policy_B, policy_C]\<rparr>
       = (Inl ValidationError,
          \<lparr>gateways = [gateway_A, gateway_B, gateway_C], enumerate_calls = 0,
            network_client = client_of [policy_B, policy_C]\<rparr>)"
  using schema_accepts_iff [of waf_data]
    schema_accepts_iff [of "[(''type'', PStr ''waf''), (''override_rule'', PInt 944240),
             (''state'', PStr ''enabled'')]"]
    schema_accepts_iff [of "[(''type'', PStr ''waf''), (''state'', PStr ''disabled'')]"
        "\<lparr>gateways = [gateway_A, gateway_B, gateway_C], enumerate_calls = 0,
          network_client = client_of [policy_B, policy_C]\<rparr>"]
  by (simp add: waf_data_def)

text \<open>
  C10. \<^verbatim>\<open>process\<close> reads \<^verbatim>\<open>resource['properties']\<close> of every resource it reaches.
  When every resource is a mapping with the key \<^verbatim>\<open>properties\<close>, the lookup succeeds on
  each of them; a resource whose \<^verbatim>\<open>properties\<close> mapping has no \<^verbatim>\<open>firewallPolicy\<close>
  is skipped without error (the run is the run without it); a resource without the key
  \<^verbatim>\<open>properties\<close> is outside the guarantee: reaching it raises \<^verbatim>\<open>KeyError\<close>.
\<close>

theorem properties_lookup:
  "((\<forall>r\<in>set resources. \<exists>d p. r = PDict d \<and> map_of d ''properties'' = Some p)
      \<longrightarrow> (\<forall>r\<in>set resources. \<exists>p. py_getitem r ''properties'' = Inr p))
   \<and> (map_of d ''properties'' = Some (PDict p) \<and> map_of p ''firewallPolicy'' = None
      \<longrightarrow> firewall_policy_id (PDict d) = Inr None
          \<and> process data c (pre @ PDict d # post) = process data c (pre @ post))
   \<and> (map_of d' ''properties'' = None \<and> fst (process data c pre) = Inr result
      \<longrightarrow> fst (process data c (pre @ PDict d' # post)) = Inl KeyError)"
proof (intro conjI impI)
  assume "\<forall>r\<in>set resources. \<exists>d p. r = PDict d \<and> map_of d ''properties'' = Some p"
  then show "\<forall>r\<in>set resources. \<exists>p. py_getitem r ''properties'' = Inr p"
    by auto
next
  assume a: "map_of d ''properties'' = Some (PDict p) \<and> map_of p ''firewallPolicy'' = None"
  then show skip: "firewall_policy_id (PDict d) = Inr None"
    by (simp add: firewall_policy_id_def)
  show "process data c (pre @ PDict d # post) = process data c (pre @ post)"
    by (rule process_skip) (simp add: skip)
next
  assume a: "map_of d' ''properties'' = None \<and> fst (process data c pre) = Inr result"
  then have "firewall_policy_id (PDict d') = Inl KeyError"
    by (simp add: firewall_policy_id_def)
  with a show "fst (process data c (pre @ PDict d' # post)) = Inl KeyError"
    by (simp add: process_append)
qed

theorem properties_lookup_witness:
  "(\<exists>p. py_getitem gateway_A ''properties'' = Inr p)
   \<and> (\<exists>p. py_getitem gateway_B ''properties'' = Inr p)
   \<and> firewall_policy_id gateway_A = Inr None
   \<and> fst (process waf_data (client_of [policy_B]) [gateway_B, gateway_A, gateway_B])
       = Inr [gateway_B, gateway_B]
   \<and> fst (process waf_data (client_of [policy_B]) [gateway_B]) = Inr [gateway_B]
   \<and> fst (process waf_data (client_of [policy_B])
            [gateway_B, PDict [(''name'', PStr ''D'')], gateway_B]) = Inl KeyError"
proof -
  have b: "fst (process waf_data (client_of [policy_B]) [gateway_B]) = Inr [gateway_B]"
    and bb: "fst (process waf_data (client_of [policy_B]) [gateway_B, gateway_B])
       = Inr [gateway_B, gateway_B]"
    by (simp_all add: builders run_defs str_defs)
  have h1: "\<forall>r\<in>set [gateway_A, gateway_B]. \<exists>d p. r = PDict d \<and> map_of d ''properties'' = Some p"
    by (simp add: builders)
  have h2: "map_of [(''name'', PStr ''A''), (''location'', PStr ''westeurope''),
            (''properties'', PDict [(''provisioningState'', PStr ''Succeeded'')])] ''properties''
           = Some (PDict [(''provisioningState'', PStr ''Succeeded'')])
         \<and> map_of [(''provisioningState'', PStr ''Succeeded'')] ''firewallPolicy'' = None"
    by simp
  have h3: "map_of [(''name'', PStr ''D'')] ''properties'' = None
         \<and> fst (process waf_data (client_of [policy_B]) [gateway_B]) = Inr [gateway_B]"
    using b by simp
  have A: "gateway_A = PDict [(''name'', PStr ''A''), (''location'', PStr ''westeurope''),
            (''properties'', PDict [(''provisioningState'', PStr ''Succeeded'')])]"
    by (simp add: builders)
  from properties_lookup [of "[gateway_A, gateway_B]"
      "[(''name'', PStr ''A''), (''location'', PStr ''westeurope''),
            (''properties'', PDict [(''provisioningState'', PStr ''Succeeded'')])]"
      "[(''provisioningState'', PStr ''Succeeded'')]"
      waf_data "client_of [policy_B]" "[gateway_B]" "[gateway_B]"
      "[(''name'', PStr ''D'')]" "[gateway_B]"] h1 h2 h3
  show ?thesis
    unfolding A [symmetric] using b bb by simp
qed

end
